theory Spec2Isabelle
  imports Main "HOL-Library.Sublist"
begin

section \<open>Python values, strings and errors\<close>

text \<open>
  The planner of \<^verbatim>\<open>backend/app/main.py\<close> works on Python strings and on the
  objects that the JSON decoder returns. A Python string is a sequence of code points;
  here it is a \<^typ>\<open>string\<close> whose characters are read as the code points 0 to 255,
  so \<^term>\<open>length\<close> counts what Python's \<^verbatim>\<open>len\<close> counts. Text with code points
  above 255 is outside this development.

  Every exception of the source is a value of \<open>error\<close>; a function that can raise
  returns \<open>error + 'a\<close>, with \<open>Inl\<close> for the exception.
\<close>

datatype error =
    Exception string
  | KeyError string
  | TypeError
  | IndexError
  | AttributeError
  | ValueError
  | JSONDecodeError
  | RecursionError
  | RequestException

subsection \<open>The string methods the source calls\<close>

definition isspace :: "char \<Rightarrow> bool" where
  \<comment> \<open>the code points below 256 that \<^verbatim>\<open>str.isspace\<close> accepts\<close>
  "isspace c = (let n = (of_char c :: nat) in
     (9 \<le> n \<and> n \<le> 13) \<or> (28 \<le> n \<and> n \<le> 32) \<or> n = 133 \<or> n = 160)"

definition isdigit_char :: "char \<Rightarrow> bool" where
  \<comment> \<open>\<^verbatim>\<open>0\<close> to \<^verbatim>\<open>9\<close>, and the superscripts two, three and one (0xB2, 0xB3, 0xB9)\<close>
  "isdigit_char c = (let n = (of_char c :: nat) in
     (48 \<le> n \<and> n \<le> 57) \<or> n = 178 \<or> n = 179 \<or> n = 185)"

definition isdigit :: "string \<Rightarrow> bool" where
  "isdigit s = (s \<noteq> [] \<and> list_all isdigit_char s)"

definition isdecimal_char :: "char \<Rightarrow> bool" where
  "isdecimal_char c = (let n = (of_char c :: nat) in 48 \<le> n \<and> n \<le> 57)"

definition isupper_char :: "char \<Rightarrow> bool" where
  \<comment> \<open>\<^verbatim>\<open>A\<close> to \<^verbatim>\<open>Z\<close>, and 0xC0 to 0xDE without the multiplication sign 0xD7\<close>
  "isupper_char c = (let n = (of_char c :: nat) in
     (65 \<le> n \<and> n \<le> 90) \<or> (192 \<le> n \<and> n \<le> 222 \<and> n \<noteq> 215))"

fun set_bit5 :: "char \<Rightarrow> char" where
  "set_bit5 (Char b0 b1 b2 b3 b4 b5 b6 b7) = Char b0 b1 b2 b3 b4 True b6 b7"

definition lower_char :: "char \<Rightarrow> char" where
  \<comment> \<open>an upper-case code point has bit 5 clear; setting it adds 32\<close>
  "lower_char c = (if isupper_char c then set_bit5 c else c)"

definition lower :: "string \<Rightarrow> string" where
  "lower s = map lower_char s"

fun split_from :: "string \<Rightarrow> string \<Rightarrow> string list" where
  "split_from cur [] = (if cur = [] then [] else [cur])"
| "split_from cur (c # cs) =
     (if isspace c then (if cur = [] then split_from [] cs else cur # split_from [] cs)
      else split_from (cur @ [c]) cs)"

definition split :: "string \<Rightarrow> string list" where
  \<comment> \<open>\<^verbatim>\<open>s.split()\<close>: the maximal runs of non-whitespace, in order\<close>
  "split s = split_from [] s"

definition strip :: "string \<Rightarrow> string" where
  "strip s = rev (dropWhile isspace (rev (dropWhile isspace s)))"

definition startswith :: "string \<Rightarrow> string \<Rightarrow> bool" where
  "startswith s p = (take (length p) s = p)"

definition endswith :: "string \<Rightarrow> string \<Rightarrow> bool" where
  "endswith s p = (length p \<le> length s \<and> drop (length s - length p) s = p)"

fun contains :: "string \<Rightarrow> string \<Rightarrow> bool" where
  \<comment> \<open>\<^verbatim>\<open>sub in s\<close>\<close>
  "contains [] sub = (sub = [])"
| "contains (c # cs) sub = (startswith (c # cs) sub \<or> contains cs sub)"

definition digit_value :: "char \<Rightarrow> int" where
  "digit_value c = int (of_char c) - 48"

definition int_max_str_digits :: nat where
  \<comment> \<open>CPython's default limit on the length of a decimal string that \<^verbatim>\<open>int\<close> converts\<close>
  "int_max_str_digits = 4300"

definition py_int :: "string \<Rightarrow> error + int" where
  \<comment> \<open>\<^verbatim>\<open>int(s)\<close> for a token \<open>s\<close> that passed \<^verbatim>\<open>isdigit\<close>: a superscript digit is no
      decimal digit, and a token longer than the limit is refused\<close>
  "py_int s =
     (if s \<noteq> [] \<and> list_all isdecimal_char s \<and> length s \<le> int_max_str_digits
      then Inr (foldl (\<lambda>acc c. 10 * acc + digit_value c) 0 s)
      else Inl ValueError)"

fun sequence :: "(error + 'a) list \<Rightarrow> error + 'a list" where
  \<comment> \<open>a list comprehension whose element expression can raise: the first exception ends it\<close>
  "sequence [] = Inr []"
| "sequence (Inl e # rs) = Inl e"
| "sequence (Inr x # rs) = (case sequence rs of Inl e \<Rightarrow> Inl e | Inr xs \<Rightarrow> Inr (x # xs))"

section \<open>The timeframe heuristic\<close>

fun parse_timeframe :: "string option \<Rightarrow> error + int" where
  \<comment> \<open>\<^verbatim>\<open>AIService._parse_timeframe\<close>; \<open>None\<close> and the empty string are the falsy timeframes\<close>
  "parse_timeframe None = Inr 8"
| "parse_timeframe (Some tf0) =
     (if tf0 = [] then Inr 8
      else
        let tf = lower tf0 in
        (case sequence (map py_int (filter isdigit (split tf))) of
           Inl e \<Rightarrow> Inl e
         | Inr numbers \<Rightarrow>
             let number = (case numbers of [] \<Rightarrow> 1 | n # _ \<Rightarrow> n) in
             if contains tf ''minute'' then Inr (max 1 (number div 60))
             else if contains tf ''hour'' then Inr number
             else if contains tf ''day'' then Inr (number * 8)
             else if contains tf ''week'' then Inr (number * 40)
             else if contains tf ''month'' then Inr (number * 160)
             else Inr 8))"

section \<open>Results\<close>

text \<open>
  The objects of the JSON decoder. A float is kept as the text that denotes it, since
  floating-point arithmetic is not part of this development: what the program does with
  a float is taken from the parameters \<open>float_bool\<close> and \<open>float_sum\<close> below. A
  dictionary is an association list, looked up with \<^const>\<open>map_of\<close>.
\<close>

datatype pyval =
    PNone
  | PBool bool
  | PInt int
  | PFloat string
  | PStr string
  | PList "pyval list"
  | PDict "(string \<times> pyval) list"

text \<open>
  A task and a breakdown are dictionaries with fixed keys in the source. The interpreter
  copies four fields of a task from the decoded document as they are, whatever their
  type, so these fields are Python values.
\<close>

record task =
  task_id :: string
  title :: pyval
  description :: pyval
  estimated_hours :: pyval
  priority :: pyval
  status :: string

record breakdown =
  reasoning :: pyval
  tasks :: "task list"
  total_estimated_hours :: pyval

section \<open>The fallback synthesizer\<close>

definition create_smart_tasks :: "string \<Rightarrow> string option \<Rightarrow> error + breakdown" where
  \<comment> \<open>\<^verbatim>\<open>AIService._create_smart_tasks\<close>\<close>
  "create_smart_tasks goal timeframe =
     (case parse_timeframe timeframe of
        Inl e \<Rightarrow> Inl e
      | Inr total_hours \<Rightarrow>
          Inr \<lparr>reasoning = PStr (''Smart task breakdown for '' @ [CHR 0x27] @ goal @ [CHR 0x27]
                                @ '' (Gemini API unavailable)''),
               tasks = [
                 \<lparr>task_id = ''1'',
                  title = PStr (''Research and plan '' @ goal),
                  description = PStr ''Initial research and planning phase'',
                  estimated_hours = PInt (max 1 (total_hours div 4)),
                  priority = PStr ''high'',
                  status = ''pending''\<rparr>,
                 \<lparr>task_id = ''2'',
                  title = PStr (''Practice core skills for '' @ goal),
                  description = PStr ''Hands-on practice and skill development'',
                  estimated_hours = PInt (max 1 (total_hours div 2)),
                  priority = PStr ''medium'',
                  status = ''pending''\<rparr>,
                 \<lparr>task_id = ''3'',
                  title = PStr (''Apply and refine '' @ goal),
                  description = PStr ''Practical application and improvement'',
                  estimated_hours = PInt (max 1 (total_hours div 4)),
                  priority = PStr ''medium'',
                  status = ''pending''\<rparr>],
               total_estimated_hours = PInt total_hours\<rparr>)"

section \<open>What the source takes from outside\<close>

text \<open>
  The HTTP client, the JSON decoder and floating-point arithmetic are not code of this
  repository; the planner is modelled for any behaviour of them.
  \<^item> \<open>requests_post\<close> answers a request, given its URL and the prompt it carries (the
    sampling parameters of the request body are constants and left out): the call
    raises, or returns a status code and a body, which \<^verbatim>\<open>response.json()\<close> decodes or
    fails to decode (\<open>None\<close>).
  \<^item> \<open>json_loads\<close> is \<^verbatim>\<open>json.loads\<close>: it raises \<open>JSONDecodeError\<close> on text that is no
    JSON document, and can raise other exceptions (an integer literal beyond the
    conversion limit, nesting beyond the recursion limit).
  \<^item> \<open>float_bool\<close> is the truth value of a float, and \<open>float_sum acc xs\<close> is what
    \<^verbatim>\<open>sum\<close> yields once it has added integers to \<open>acc\<close> and meets a float at the head
    of \<open>xs\<close>.
\<close>

datatype reply = Raises error | Response int "pyval option"

record env =
  requests_post :: "string \<Rightarrow> string \<Rightarrow> reply"
  json_loads :: "string \<Rightarrow> error + pyval"
  float_bool :: "string \<Rightarrow> bool"
  float_sum :: "int \<Rightarrow> pyval list \<Rightarrow> error + pyval"

subsection \<open>Operations on Python values\<close>

definition andthen :: "error + 'a \<Rightarrow> ('a \<Rightarrow> error + 'b) \<Rightarrow> error + 'b" where
  \<comment> \<open>sequencing: an exception of the first computation skips the second\<close>
  "andthen r f = (case r of Inl e \<Rightarrow> Inl e | Inr x \<Rightarrow> f x)"

fun truthy :: "env \<Rightarrow> pyval \<Rightarrow> bool" where
  "truthy w PNone = False"
| "truthy w (PBool b) = b"
| "truthy w (PInt n) = (n \<noteq> 0)"
| "truthy w (PFloat f) = float_bool w f"
| "truthy w (PStr s) = (s \<noteq> [])"
| "truthy w (PList xs) = (xs \<noteq> [])"
| "truthy w (PDict kvs) = (kvs \<noteq> [])"

fun getitem :: "pyval \<Rightarrow> string \<Rightarrow> error + pyval" where
  \<comment> \<open>\<^verbatim>\<open>v[k]\<close> for a string \<open>k\<close>\<close>
  "getitem (PDict kvs) k = (case map_of kvs k of None \<Rightarrow> Inl (KeyError k) | Some v \<Rightarrow> Inr v)"
| "getitem v k = Inl TypeError"

fun getitem0 :: "pyval \<Rightarrow> error + pyval" where
  \<comment> \<open>\<^verbatim>\<open>v[0]\<close>; the keys of a decoded dictionary are strings, so \<open>0\<close> is never one\<close>
  "getitem0 (PList xs) = (case xs of [] \<Rightarrow> Inl IndexError | x # _ \<Rightarrow> Inr x)"
| "getitem0 (PStr s) = (case s of [] \<Rightarrow> Inl IndexError | c # _ \<Rightarrow> Inr (PStr [c]))"
| "getitem0 (PDict kvs) = Inl (KeyError ''0'')"
| "getitem0 v = Inl TypeError"

fun contains_key :: "string \<Rightarrow> pyval \<Rightarrow> error + bool" where
  \<comment> \<open>\<^verbatim>\<open>k in v\<close> for a string \<open>k\<close>\<close>
  "contains_key k (PDict kvs) = Inr (k \<in> fst ` set kvs)"
| "contains_key k (PList xs) = Inr (PStr k \<in> set xs)"
| "contains_key k (PStr s) = Inr (contains s k)"
| "contains_key k v = Inl TypeError"

fun dict_get :: "pyval \<Rightarrow> string \<Rightarrow> pyval \<Rightarrow> error + pyval" where
  \<comment> \<open>\<^verbatim>\<open>v.get(k, default)\<close>: only a dictionary has the method\<close>
  "dict_get (PDict kvs) k d = (case map_of kvs k of None \<Rightarrow> Inr d | Some v \<Rightarrow> Inr v)"
| "dict_get v k d = Inl AttributeError"

fun iterate :: "pyval \<Rightarrow> error + pyval list" where
  \<comment> \<open>the items a \<^verbatim>\<open>for\<close> loop over \<open>v\<close> visits\<close>
  "iterate (PList xs) = Inr xs"
| "iterate (PStr s) = Inr (map (\<lambda>c. PStr [c]) s)"
| "iterate (PDict kvs) = Inr (map (\<lambda>kv. PStr (fst kv)) kvs)"
| "iterate v = Inl TypeError"

fun py_sum_from :: "env \<Rightarrow> int \<Rightarrow> pyval list \<Rightarrow> error + pyval" where
  \<comment> \<open>\<^verbatim>\<open>sum\<close> with the integer \<open>acc\<close> reached so far; \<^verbatim>\<open>True\<close> counts 1\<close>
  "py_sum_from w acc [] = Inr (PInt acc)"
| "py_sum_from w acc (PInt n # xs) = py_sum_from w (acc + n) xs"
| "py_sum_from w acc (PBool b # xs) = py_sum_from w (acc + (if b then 1 else 0)) xs"
| "py_sum_from w acc (PFloat f # xs) = float_sum w acc (PFloat f # xs)"
| "py_sum_from w acc (x # xs) = Inl TypeError"

definition py_sum :: "env \<Rightarrow> pyval list \<Rightarrow> error + pyval" where
  "py_sum w xs = py_sum_from w 0 xs"

definition digit_char :: "nat \<Rightarrow> char" where
  "digit_char d = ''0123456789'' ! d"

function str_nat :: "nat \<Rightarrow> string" where
  \<comment> \<open>\<^verbatim>\<open>str(n)\<close> for \<open>n \<ge> 0\<close>\<close>
  "str_nat n =
     (if n < 10 then [digit_char n] else str_nat (n div 10) @ [digit_char (n mod 10)])"
  by pat_completeness auto
termination
  by (relation "measure id") auto

declare str_nat.simps [simp del]

definition str_int :: "int \<Rightarrow> string" where
  "str_int i = (if i < 0 then CHR ''-'' # str_nat (nat (- i)) else str_nat (nat i))"

section \<open>The response interpreter\<close>

definition build_task :: "nat \<Rightarrow> pyval \<Rightarrow> error + task" where
  \<comment> \<open>the body of the loop over \<^verbatim>\<open>enumerate(...)\<close>: the dictionary appended for entry \<open>i\<close>\<close>
  "build_task i task_data =
     andthen (getitem task_data ''title'') (\<lambda>t.
     andthen (getitem task_data ''description'') (\<lambda>d.
     andthen (getitem task_data ''estimated_hours'') (\<lambda>h.
     andthen (getitem task_data ''priority'') (\<lambda>p.
       Inr \<lparr>task_id = str_nat (i + 1), title = t, description = d,
            estimated_hours = h, priority = p, status = ''pending''\<rparr>))))"

fun build_tasks :: "nat \<Rightarrow> pyval list \<Rightarrow> error + task list" where
  "build_tasks i [] = Inr []"
| "build_tasks i (task_data # rest) =
     andthen (build_task i task_data) (\<lambda>t.
     andthen (build_tasks (Suc i) rest) (\<lambda>ts. Inr (t # ts)))"

definition clean :: "string \<Rightarrow> string" where
  \<comment> \<open>lines 134 to 145: trim, drop one opening and one closing fence, trim\<close>
  "clean content0 =
     (let content1 = strip content0;
          content2 = (if startswith content1 ''```json'' then drop 7 content1
                      else if startswith content1 ''```'' then drop 3 content1
                      else content1);
          content3 = (if endswith content2 ''```'' then take (length content2 - 3) content2
                      else content2)
      in strip content3)"

definition task_entries :: "pyval \<Rightarrow> error + pyval list" where
  \<comment> \<open>the entries that the loop over \<^verbatim>\<open>data.get("tasks", [])\<close> visits\<close>
  "task_entries data = andthen (dict_get data ''tasks'' (PList [])) iterate"

definition assemble :: "env \<Rightarrow> pyval \<Rightarrow> error + breakdown" where
  \<comment> \<open>lines 153 to 171: the tasks, their total, and the result\<close>
  "assemble w data =
     andthen (task_entries data) (\<lambda>items.
     andthen (build_tasks 0 items) (\<lambda>ts.
     andthen (py_sum w (map estimated_hours ts)) (\<lambda>total_hours.
     andthen (getitem data ''reasoning'') (\<lambda>r.
       Inr \<lparr>reasoning = r, tasks = ts, total_estimated_hours = total_hours\<rparr>))))"

definition parse_ai_response :: "env \<Rightarrow> string \<Rightarrow> string \<Rightarrow> error + breakdown" where
  \<comment> \<open>\<^verbatim>\<open>AIService._parse_ai_response\<close>; only \<open>JSONDecodeError\<close> is caught and replaced\<close>
  "parse_ai_response w content goal =
     (case json_loads w (clean content) of
        Inl e \<Rightarrow>
          (if e = JSONDecodeError then Inl (Exception ''Failed to parse AI response as JSON'')
           else Inl e)
      | Inr data \<Rightarrow> assemble w data)"

section \<open>The model prober\<close>

record ai_service =
  api_key :: "string option"
  possible_models :: "string list"
  base_url :: string

definition init :: "string option \<Rightarrow> ai_service" where
  \<comment> \<open>\<^verbatim>\<open>AIService.__init__\<close>; the argument is the value of \<^verbatim>\<open>GEMINI_API_KEY\<close>, if set\<close>
  "init key =
     \<lparr>api_key = key,
      possible_models = [''gemini-2.0-flash'', ''gemini-2.0-flash-001'',
        ''gemini-2.0-flash-lite'', ''gemini-2.0-flash-lite-001'', ''gemini-pro-latest'',
        ''gemini-2.5-flash'', ''gemini-2.5-pro''],
      base_url = ''https://generativelanguage.googleapis.com/v1beta/models''\<rparr>"

definition unlines :: "string list \<Rightarrow> string" where
  \<comment> \<open>the lines of a text, joined by line feeds\<close>
  "unlines ls = (case ls of [] \<Rightarrow> [] | l # rest \<Rightarrow> l @ concat (map (\<lambda>x. CHR 0x0A # x) rest))"

definition build_prompt :: "string \<Rightarrow> string option \<Rightarrow> string" where
  \<comment> \<open>\<^verbatim>\<open>AIService._build_prompt\<close>; an absent or empty timeframe reads \<^verbatim>\<open>Flexible\<close>\<close>
  \<open>build_prompt goal timeframe = unlines [
     ''You are an expert project planner. Break this goal into 3-5 specific, actionable tasks with realistic time estimates.'',
     [],
     ''GOAL: '' @ goal,
     (case timeframe of
        None \<Rightarrow> ''TIMEFRAME: Flexible''
      | Some tf \<Rightarrow> if tf = [] then ''TIMEFRAME: Flexible'' else ''TIMEFRAME: '' @ tf),
     [],
     ''Return ONLY valid JSON with this exact structure:'',
     ''{'',
     ''    "reasoning": "Brief explanation of your approach",'',
     ''    "tasks": ['',
     ''        {'',
     ''            "title": "Specific, actionable task name",'',
     ''            "description": "Detailed description of what needs to be done", '',
     ''            "estimated_hours": 2,'',
     ''            "priority": "high"'',
     ''        }'',
     ''    ]'',
     ''}'',
     [],
     ''Requirements:'',
     ''- Make tasks practical and sequential'',
     ''- Ensure total estimated hours are appropriate for the timeframe'',
     ''- Return ONLY the JSON, no other text'',
     ''- Use double quotes for JSON properties'']\<close>

definition api_url :: "ai_service \<Rightarrow> string \<Rightarrow> string" where
  \<comment> \<open>an unset key is formatted as \<^verbatim>\<open>None\<close>\<close>
  "api_url self model_name =
     base_url self @ ''/'' @ model_name @ '':generateContent?key=''
       @ (case api_key self of None \<Rightarrow> ''None'' | Some k \<Rightarrow> k)"

definition extract_text :: "pyval \<Rightarrow> error + pyval" where
  \<comment> \<open>\<^verbatim>\<open>result["candidates"][0]["content"]["parts"][0]["text"]\<close>\<close>
  "extract_text result =
     andthen (getitem result ''candidates'') (\<lambda>cands.
     andthen (getitem0 cands) (\<lambda>cand.
     andthen (getitem cand ''content'') (\<lambda>cont.
     andthen (getitem cont ''parts'') (\<lambda>parts.
     andthen (getitem0 parts) (\<lambda>part.
       getitem part ''text'')))))"

definition try_model ::
  "env \<Rightarrow> ai_service \<Rightarrow> string \<Rightarrow> string \<Rightarrow> string option \<Rightarrow> error + breakdown" where
  \<comment> \<open>\<^verbatim>\<open>AIService._try_model\<close>; a text that is no string has no \<^verbatim>\<open>strip\<close> method\<close>
  "try_model w self model_name goal timeframe =
     (case requests_post w (api_url self model_name) (build_prompt goal timeframe) of
        Raises e \<Rightarrow> Inl e
      | Response status_code body \<Rightarrow>
          if status_code = 200 then
            (case body of
               None \<Rightarrow> Inl JSONDecodeError
             | Some result \<Rightarrow>
                 andthen (contains_key ''candidates'' result) (\<lambda>present.
                 andthen (if present then getitem result ''candidates'' else Inr (PBool False))
                   (\<lambda>cands.
                     if truthy w cands then
                       andthen (extract_text result) (\<lambda>content.
                         case content of
                           PStr text \<Rightarrow> parse_ai_response w text goal
                         | _ \<Rightarrow> Inl AttributeError)
                     else Inl (Exception ''No candidates in response''))))
          else Inl (Exception (''HTTP '' @ str_int status_code)))"

text \<open>
  The loop of \<^verbatim>\<open>break_down_goal\<close> over the remaining candidates. A result of
  \<^verbatim>\<open>_try_model\<close> is a dictionary of three keys, so the test \<^verbatim>\<open>if result\<close> holds for
  every result. Beside the outcome, the function returns the candidates it has tried,
  in order: one request each.
\<close>

fun probe ::
  "env \<Rightarrow> ai_service \<Rightarrow> string list \<Rightarrow> string \<Rightarrow> string option
     \<Rightarrow> string list \<times> (error + breakdown)" where
  "probe w self [] goal timeframe = ([], create_smart_tasks goal timeframe)"
| "probe w self (model_name # rest) goal timeframe =
     (case try_model w self model_name goal timeframe of
        Inr result \<Rightarrow> ([model_name], Inr result)
      | Inl e \<Rightarrow>
          (case probe w self rest goal timeframe of
             (tried, outcome) \<Rightarrow> (model_name # tried, outcome)))"

definition break_down_goal ::
  "env \<Rightarrow> ai_service \<Rightarrow> string \<Rightarrow> string option \<Rightarrow> string list \<times> (error + breakdown)" where
  \<comment> \<open>\<^verbatim>\<open>AIService.break_down_goal\<close>\<close>
  "break_down_goal w self goal timeframe = probe w self (possible_models self) goal timeframe"

section \<open>A reader of JSON text\<close>

text \<open>
  The theorems on the interpreter hold for every decoder \<open>json_loads\<close>. The examples
  need one that runs: \<open>read_json\<close> follows the decoder of the Python library on texts
  without \<^verbatim>\<open>\u\<close> escapes (it rejects such an escape). White space is blank, tab, line
  feed and carriage return; a number with a fraction or an exponent is a float; an
  integer literal beyond the conversion limit raises \<open>ValueError\<close>; a repeated key
  keeps its last value. The first argument of the three mutually recursive functions
  bounds the nesting: it is the text itself, one unit for each character.
\<close>

definition json_ws :: "char \<Rightarrow> bool" where
  "json_ws c = (c = CHR '' '' \<or> c = CHR 0x09 \<or> c = CHR 0x0A \<or> c = CHR 0x0D)"

definition skip_ws :: "string \<Rightarrow> string" where
  "skip_ws s = dropWhile json_ws s"

definition unescape :: "char \<Rightarrow> char option" where
  \<open>unescape e =
     (if e = CHR 0x22 then Some (CHR 0x22)
      else if e = CHR 0x5C then Some (CHR 0x5C)
      else if e = CHR ''/'' then Some (CHR ''/'')
      else if e = CHR ''b'' then Some (CHR 0x08)
      else if e = CHR ''f'' then Some (CHR 0x0C)
      else if e = CHR ''n'' then Some (CHR 0x0A)
      else if e = CHR ''r'' then Some (CHR 0x0D)
      else if e = CHR ''t'' then Some (CHR 0x09)
      else None)\<close>

fun read_string :: "string \<Rightarrow> string \<Rightarrow> (string \<times> string) option" where
  \<comment> \<open>the text after an opening quote, up to the closing one: the string and the rest\<close>
  "read_string acc [] = None"
| "read_string acc (c # cs) =
     (if c = CHR 0x22 then Some (acc, cs)
      else if c = CHR 0x5C then
        (case cs of
           [] \<Rightarrow> None
         | e # rest \<Rightarrow>
             (case unescape e of None \<Rightarrow> None | Some d \<Rightarrow> read_string (acc @ [d]) rest))
      else if (of_char c :: nat) < 32 then None
      else read_string (acc @ [c]) cs)"

definition sign_of :: "string \<Rightarrow> string \<times> string" where
  "sign_of s = (case s of [] \<Rightarrow> ([], []) | c # cs \<Rightarrow> if c = CHR ''+'' \<or> c = CHR ''-'' then ([c], cs) else ([], s))"

definition read_number :: "string \<Rightarrow> (error + pyval \<times> string) option" where
  \<comment> \<open>the longest number at the head of the text, if there is one\<close>
  "read_number s =
     (let minus = (if startswith s ''-'' \<and> s \<noteq> [] then ''-'' else []);
          s1 = drop (length minus) s;
          run = takeWhile isdecimal_char s1;
          digits = (if startswith run ''0'' \<and> run \<noteq> [] then ''0'' else run);
          s2 = drop (length digits) s1;
          fdigits = (case s2 of [] \<Rightarrow> [] | c # cs \<Rightarrow> if c = CHR ''.'' then takeWhile isdecimal_char cs else []);
          frac = (if fdigits = [] then [] else CHR ''.'' # fdigits);
          s3 = drop (length frac) s2;
          es = (case s3 of [] \<Rightarrow> ([], []) | c # cs \<Rightarrow> if c = CHR ''e'' \<or> c = CHR ''E'' then sign_of cs else ([], []));
          edigits = takeWhile isdecimal_char (snd es);
          ex = (if edigits = [] then [] else take 1 s3 @ fst es @ edigits);
          s4 = drop (length ex) s3
      in if digits = [] then None
         else if frac = [] \<and> ex = [] then
           (case py_int digits of
              Inl e \<Rightarrow> Some (Inl e)
            | Inr n \<Rightarrow> Some (Inr (PInt (if minus = [] then n else - n), s4)))
         else Some (Inr (PFloat (minus @ digits @ frac @ ex), s4)))"

definition read_atom :: "string \<Rightarrow> error + pyval \<times> string" where
  \<comment> \<open>a value that opens with neither a quote, a brace nor a bracket\<close>
  "read_atom s =
     (if startswith s ''null'' then Inr (PNone, drop 4 s)
      else if startswith s ''true'' then Inr (PBool True, drop 4 s)
      else if startswith s ''false'' then Inr (PBool False, drop 5 s)
      else
        (case read_number s of
           Some r \<Rightarrow> r
         | None \<Rightarrow>
             if startswith s ''NaN'' then Inr (PFloat ''NaN'', drop 3 s)
             else if startswith s ''Infinity'' then Inr (PFloat ''Infinity'', drop 8 s)
             else if startswith s ''-Infinity'' then Inr (PFloat ''-Infinity'', drop 9 s)
             else Inl JSONDecodeError))"

fun dict_set :: "string \<Rightarrow> pyval \<Rightarrow> (string \<times> pyval) list \<Rightarrow> (string \<times> pyval) list" where
  \<comment> \<open>\<^verbatim>\<open>d[k] = v\<close>: a key that is present keeps its place\<close>
  "dict_set k v [] = [(k, v)]"
| "dict_set k v (p # ps) = (if fst p = k then (k, v) # ps else p # dict_set k v ps)"

fun read_value :: "string \<Rightarrow> string \<Rightarrow> error + pyval \<times> string"
  and read_items :: "string \<Rightarrow> pyval list \<Rightarrow> string \<Rightarrow> error + pyval \<times> string"
  and read_members :: "string \<Rightarrow> (string \<times> pyval) list \<Rightarrow> string \<Rightarrow> error + pyval \<times> string"
where
  "read_value [] s = Inl RecursionError"
| "read_value (u # fuel) s =
     (case s of
        [] \<Rightarrow> Inl JSONDecodeError
      | c # cs \<Rightarrow>
          if c = CHR 0x22 then
            (case read_string [] cs of
               None \<Rightarrow> Inl JSONDecodeError
             | Some (str, rest) \<Rightarrow> Inr (PStr str, rest))
          else if c = CHR ''{'' then
            (case skip_ws cs of
               [] \<Rightarrow> Inl JSONDecodeError
             | d # ds \<Rightarrow>
                 if d = CHR ''}'' then Inr (PDict [], ds)
                 else read_members fuel [] (d # ds))
          else if c = CHR ''['' then
            (case skip_ws cs of
               [] \<Rightarrow> Inl JSONDecodeError
             | d # ds \<Rightarrow>
                 if d = CHR '']'' then Inr (PList [], ds)
                 else read_items fuel [] (d # ds))
          else read_atom s)"
| "read_items [] acc s = Inl RecursionError"
| "read_items (u # fuel) acc s =
     (case read_value fuel s of
        Inl e \<Rightarrow> Inl e
      | Inr (v, rest) \<Rightarrow>
          (case skip_ws rest of
             [] \<Rightarrow> Inl JSONDecodeError
           | d # ds \<Rightarrow>
               if d = CHR '']'' then Inr (PList (acc @ [v]), ds)
               else if d = CHR '','' then read_items fuel (acc @ [v]) (skip_ws ds)
               else Inl JSONDecodeError))"
| "read_members [] acc s = Inl RecursionError"
| "read_members (u # fuel) acc s =
     (case s of
        [] \<Rightarrow> Inl JSONDecodeError
      | q # qs \<Rightarrow>
          if q \<noteq> CHR 0x22 then Inl JSONDecodeError
          else
            (case read_string [] qs of
               None \<Rightarrow> Inl JSONDecodeError
             | Some (key, rest) \<Rightarrow>
                 (case skip_ws rest of
                    [] \<Rightarrow> Inl JSONDecodeError
                  | colon # after \<Rightarrow>
                      if colon \<noteq> CHR '':'' then Inl JSONDecodeError
                      else
                        (case read_value fuel (skip_ws after) of
                           Inl e \<Rightarrow> Inl e
                         | Inr (v, rest2) \<Rightarrow>
                             (case skip_ws rest2 of
                                [] \<Rightarrow> Inl JSONDecodeError
                              | d # ds \<Rightarrow>
                                  if d = CHR ''}'' then Inr (PDict (dict_set key v acc), ds)
                                  else if d = CHR '','' then
                                    read_members fuel (dict_set key v acc) (skip_ws ds)
                                  else Inl JSONDecodeError)))))"

definition read_json :: "string \<Rightarrow> error + pyval" where
  "read_json s =
     (case read_value (CHR ''.'' # s) (skip_ws s) of
        Inl e \<Rightarrow> Inl e
      | Inr (v, rest) \<Rightarrow> if skip_ws rest = [] then Inr v else Inl JSONDecodeError)"

definition example_env :: "(string \<Rightarrow> string \<Rightarrow> reply) \<Rightarrow> env" where
  \<comment> \<open>the environment of the examples: none of them holds a float, so the two float
      parameters are never consulted\<close>
  "example_env post =
     \<lparr>requests_post = post, json_loads = read_json,
      float_bool = (\<lambda>f. True), float_sum = (\<lambda>acc xs. Inl TypeError)\<rparr>"

definition offline :: "string \<Rightarrow> string \<Rightarrow> reply" where
  \<comment> \<open>a network on which every request fails\<close>
  "offline url prompt = Raises RequestException"

definition example_text :: string where
  \<open>example_text =
     ''{"reasoning": "r", "tasks": [{"title": "t", "description": "d", "estimated_hours": 2, "priority": "urgent"}], "total_estimated_hours": 99}''\<close>

definition example_body :: pyval where
  \<comment> \<open>a response body that carries \<open>example_text\<close> as its first candidate\<close>
  "example_body =
     PDict [(''candidates'',
       PList [PDict [(''content'',
         PDict [(''parts'', PList [PDict [(''text'', PStr example_text)]])])]])]"

definition second_only :: "string \<Rightarrow> string \<Rightarrow> reply" where
  \<comment> \<open>a network on which only the second candidate of \<open>init None\<close> answers\<close>
  "second_only url prompt =
     (if url = api_url (init None) ''gemini-2.0-flash-001'' then Response 200 (Some example_body)
      else Raises RequestException)"

definition example_result :: breakdown where
  "example_result =
     \<lparr>reasoning = PStr ''r'',
      tasks = [\<lparr>task_id = ''1'', title = PStr ''t'', description = PStr ''d'',
                estimated_hours = PInt 2, priority = PStr ''urgent'', status = ''pending''\<rparr>],
      total_estimated_hours = PInt 2\<rparr>"

definition no_priority_text :: string where
  \<comment> \<open>\<open>example_text\<close> without the priority of its task and without a total\<close>
  \<open>no_priority_text =
     ''{"reasoning": "r", "tasks": [{"title": "t", "description": "d", "estimated_hours": 2}]}''\<close>


definition example_entry :: pyval where
  \<comment> \<open>the task entry of \<open>example_text\<close>, decoded\<close>
  "example_entry = PDict [(''title'', PStr ''t''), (''description'', PStr ''d''),
     (''estimated_hours'', PInt 2), (''priority'', PStr ''urgent'')]"

section \<open>The timeframe heuristic and the fallback synthesizer\<close>

lemma andthen_Inl [simp]: "andthen (Inl e) f = Inl e"
  by (simp add: andthen_def)

lemma andthen_Inr [simp]: "andthen (Inr x) f = f x"
  by (simp add: andthen_def)

lemma andthen_eq_Inr: "andthen r f = Inr y \<longleftrightarrow> (\<exists>x. r = Inr x \<and> f x = Inr y)"
  by (cases r) simp_all

lemma create_smart_tasks_shape:
  assumes "create_smart_tasks goal timeframe = Inr r"
  shows "\<exists>h. parse_timeframe timeframe = Inr h
           \<and> map task_id (tasks r) = [''1'', ''2'', ''3'']
           \<and> map title (tasks r) =
               [PStr (''Research and plan '' @ goal), PStr (''Practice core skills for '' @ goal),
                PStr (''Apply and refine '' @ goal)]
           \<and> map estimated_hours (tasks r) =
               [PInt (max 1 (h div 4)), PInt (max 1 (h div 2)), PInt (max 1 (h div 4))]
           \<and> map priority (tasks r) = [PStr ''high'', PStr ''medium'', PStr ''medium'']
           \<and> total_estimated_hours r = PInt h"
  using assms by (auto simp: create_smart_tasks_def split: sum.splits)

text \<open>
  C4. Claimed: for every input, absent, empty or any text, the timeframe heuristic
  returns an integer that is at least 1. The code does not: only the \<^verbatim>\<open>minute\<close> branch
  clamps its result to 1, so a quantity of zero with any other unit gives zero hours;
  and a token of superscript digits passes \<^verbatim>\<open>isdigit\<close> but not \<^verbatim>\<open>int\<close>, so the call
  raises \<open>ValueError\<close>.
\<close>

theorem parse_timeframe_zero_hours:
  "parse_timeframe (Some ''0 hours'') = Inr 0
   \<and> parse_timeframe (Some (CHR 0xB2 # '' weeks'')) = Inl ValueError"
  by code_simp

text \<open>
  C1. Claimed: for every goal and every timeframe the synthesizer returns exactly 3
  tasks, each of at least 1 hour, and a total equal to the sum of the three. The code
  returns the budget of the timeframe as the total, not the sum: for one hour the
  three tasks take 1 hour each and the total is 1.
\<close>

theorem create_smart_tasks_one_hour:
  "map_sum id (\<lambda>r. (map estimated_hours (tasks r), total_estimated_hours r))
     (create_smart_tasks ''Learn Spanish'' (Some ''1 hour''))
   = Inr ([PInt 1, PInt 1, PInt 1], PInt 1)"
  by code_simp

section \<open>The model prober\<close>

lemma probe_all_fail:
  assumes "\<forall>m \<in> set ms. isl (try_model w self m goal timeframe)"
  shows "probe w self ms goal timeframe = (ms, create_smart_tasks goal timeframe)"
  using assms by (induction ms) (auto split: sum.splits)

lemma probe_first_success:
  assumes "\<forall>c \<in> set pre. isl (try_model w self c goal timeframe)"
    and "try_model w self m goal timeframe = Inr r"
  shows "probe w self (pre @ m # post) goal timeframe = (pre @ [m], Inr r)"
  using assms by (induction pre) (auto split: sum.splits)

lemma probe_prefix: "prefix (fst (probe w self ms goal timeframe)) ms"
  by (induction ms) (auto split: sum.splits prod.splits)

lemma break_down_goal_all_fail:
  assumes "\<forall>m \<in> set (possible_models self). isl (try_model w self m goal timeframe)"
  shows "break_down_goal w self goal timeframe
           = (possible_models self, create_smart_tasks goal timeframe)"
  using assms by (simp add: break_down_goal_def probe_all_fail)

lemma try_model_offline: "try_model (example_env offline) self m goal timeframe = Inl RequestException"
  by (simp add: try_model_def example_env_def offline_def)

lemma possible_models_distinct: "distinct (possible_models (init key))"
  by (simp add: init_def)

text \<open>
  C2. Claimed: the prober never raises; when every candidate fails, for every
  non-empty goal and optional timeframe it returns the fallback result of the same
  goal and timeframe. When every candidate fails the prober does hand over to the
  synthesizer (\<open>break_down_goal_all_fail\<close>), but that call stands outside the
  \<^verbatim>\<open>try\<close>, and the synthesizer raises on a timeframe with a token of superscript
  digits: the caller gets a \<open>ValueError\<close> instead of a result.
\<close>

theorem break_down_goal_raises:
  "break_down_goal (example_env offline) (init None) ''Learn Spanish''
     (Some (CHR 0xB2 # '' weeks''))
   = (possible_models (init None), Inl ValueError)"
  by code_simp

text \<open>
  C8. The prober stops at the first candidate whose attempt yields a result and
  returns that result: when the candidates before \<open>m\<close> fail and \<open>m\<close> succeeds, the
  candidates tried are exactly those up to \<open>m\<close>, in order, each once, and none after
  it (two attempts when the first fails and the second succeeds). Whatever the
  outcome, the candidates tried are an initial part of the configured list.
\<close>

theorem break_down_goal_first_success:
  assumes "possible_models self = pre @ m # post"
    and "\<forall>c \<in> set pre. isl (try_model w self c goal timeframe)"
    and "try_model w self m goal timeframe = Inr r"
  shows "break_down_goal w self goal timeframe = (pre @ [m], Inr r)
         \<and> prefix (fst (break_down_goal w self goal timeframe)) (possible_models self)"
  using assms probe_prefix [of w self "possible_models self" goal timeframe]
  by (simp add: break_down_goal_def probe_first_success)

theorem break_down_goal_first_success_witness:
  "try_model (example_env second_only) (init None) ''gemini-2.0-flash'' ''Learn Spanish'' None
     = Inl RequestException
   \<and> try_model (example_env second_only) (init None) ''gemini-2.0-flash-001'' ''Learn Spanish'' None
     = Inr example_result
   \<and> break_down_goal (example_env second_only) (init None) ''Learn Spanish'' None
     = ([''gemini-2.0-flash'', ''gemini-2.0-flash-001''], Inr example_result)
   \<and> length (fst (break_down_goal (example_env second_only) (init None) ''Learn Spanish'' None)) = 2"
proof -
  let ?w = "example_env second_only"
  have models: "possible_models (init None) = [''gemini-2.0-flash''] @ ''gemini-2.0-flash-001''
      # [''gemini-2.0-flash-lite'', ''gemini-2.0-flash-lite-001'', ''gemini-pro-latest'',
         ''gemini-2.5-flash'', ''gemini-2.5-pro'']"
    by (simp add: init_def)
  have first: "try_model ?w (init None) ''gemini-2.0-flash'' ''Learn Spanish'' None
      = Inl RequestException"
    by code_simp
  have second: "try_model ?w (init None) ''gemini-2.0-flash-001'' ''Learn Spanish'' None
      = Inr example_result"
    by code_simp
  have before: "\<forall>c \<in> set [''gemini-2.0-flash'']. isl (try_model ?w (init None) c ''Learn Spanish'' None)"
    using first by simp
  from break_down_goal_first_success [OF models before second] first second
  show ?thesis by simp
qed

text \<open>
  With the empty string as goal the prober rejects nothing: when every candidate fails
  and the timeframe is one on which the heuristic returns, with budget \<open>h\<close>, the outcome
  is the fallback result of three tasks whose titles and reasoning embed the empty goal.
\<close>

lemma empty_goal_fallback:
  assumes "\<forall>m \<in> set (possible_models self). isl (try_model w self m [] timeframe)"
    and "parse_timeframe timeframe = Inr h"
  shows "break_down_goal w self [] timeframe =
     (possible_models self,
      Inr \<lparr>reasoning = PStr (''Smart task breakdown for '' @ [CHR 0x27, CHR 0x27]
                               @ '' (Gemini API unavailable)''),
           tasks = [
             \<lparr>task_id = ''1'', title = PStr ''Research and plan '',
              description = PStr ''Initial research and planning phase'',
              estimated_hours = PInt (max 1 (h div 4)), priority = PStr ''high'',
              status = ''pending''\<rparr>,
             \<lparr>task_id = ''2'', title = PStr ''Practice core skills for '',
              description = PStr ''Hands-on practice and skill development'',
              estimated_hours = PInt (max 1 (h div 2)), priority = PStr ''medium'',
              status = ''pending''\<rparr>,
             \<lparr>task_id = ''3'', title = PStr ''Apply and refine '',
              description = PStr ''Practical application and improvement'',
              estimated_hours = PInt (max 1 (h div 4)), priority = PStr ''medium'',
              status = ''pending''\<rparr>],
           total_estimated_hours = PInt h\<rparr>)"
  using assms by (simp add: break_down_goal_all_fail create_smart_tasks_def)

lemma empty_goal_fallback_default:
  "break_down_goal (example_env offline) (init None) [] None =
     (possible_models (init None),
      Inr \<lparr>reasoning = PStr (''Smart task breakdown for '' @ [CHR 0x27, CHR 0x27]
                               @ '' (Gemini API unavailable)''),
           tasks = [
             \<lparr>task_id = ''1'', title = PStr ''Research and plan '',
              description = PStr ''Initial research and planning phase'',
              estimated_hours = PInt 2, priority = PStr ''high'', status = ''pending''\<rparr>,
             \<lparr>task_id = ''2'', title = PStr ''Practice core skills for '',
              description = PStr ''Hands-on practice and skill development'',
              estimated_hours = PInt 4, priority = PStr ''medium'', status = ''pending''\<rparr>,
             \<lparr>task_id = ''3'', title = PStr ''Apply and refine '',
              description = PStr ''Practical application and improvement'',
              estimated_hours = PInt 2, priority = PStr ''medium'', status = ''pending''\<rparr>],
           total_estimated_hours = PInt 8\<rparr>)"
  using empty_goal_fallback [of "init None" "example_env offline" None 8]
  by (simp add: try_model_offline)

text \<open>
  C10. Claimed: the prober does not validate the goal; with the empty string as goal
  it neither rejects nor raises, and when every candidate fails it returns the fallback
  result of three tasks whose titles and reasoning embed the empty goal. No check of the
  goal exists, and \<open>empty_goal_fallback\<close> gives that result wherever the heuristic
  returns. But the call does raise: with the empty goal and a timeframe holding a token
  of superscript digits, every candidate failing, the caller gets a \<open>ValueError\<close> and
  no result.
\<close>

theorem break_down_goal_empty_goal_raises:
  "break_down_goal (example_env offline) (init None) [] (Some (CHR 0xB2 # '' weeks''))
   = (possible_models (init None), Inl ValueError)"
  by code_simp

section \<open>The response interpreter\<close>

subsection \<open>What an accepted document holds\<close>

lemma build_task_Inr:
  "build_task i e = Inr t \<longleftrightarrow>
     (\<exists>tt d h p. getitem e ''title'' = Inr tt \<and> getitem e ''description'' = Inr d
        \<and> getitem e ''estimated_hours'' = Inr h \<and> getitem e ''priority'' = Inr p
        \<and> t = \<lparr>task_id = str_nat (i + 1), title = tt, description = d,
                 estimated_hours = h, priority = p, status = ''pending''\<rparr>)"
  by (auto simp: build_task_def andthen_eq_Inr)

lemma build_tasks_length: "build_tasks i items = Inr ts \<Longrightarrow> length ts = length items"
  by (induction items arbitrary: i ts) (auto simp: andthen_eq_Inr)

lemma build_task_isl_index: "isl (build_task i e) \<longleftrightarrow> isl (build_task j e)"
  by (auto simp: build_task_def andthen_def split: sum.splits)

lemma build_tasks_fails:
  "e \<in> set items \<Longrightarrow> isl (build_task 0 e) \<Longrightarrow> isl (build_tasks i items)"
proof (induction items arbitrary: i)
  case Nil
  then show ?case by simp
next
  case (Cons a as)
  show ?case
  proof (cases "build_task i a")
    case (Inl x)
    then show ?thesis by simp
  next
    case (Inr t)
    then have "a \<noteq> e" using Cons.prems(2) build_task_isl_index [of i e 0] by auto
    then have "e \<in> set as" using Cons.prems(1) by simp
    from Cons.IH [OF this Cons.prems(2), of "Suc i"] show ?thesis
      using Inr by (auto simp: andthen_def split: sum.splits)
  qed
qed

lemma build_task_needs:
  "isl (getitem e k) \<Longrightarrow> k \<in> {''title'', ''description'', ''estimated_hours'', ''priority''}
     \<Longrightarrow> isl (build_task i e)"
  by (auto simp: build_task_def andthen_def split: sum.splits)

lemma build_tasks_priorities:
  "build_tasks i items = Inr ts
     \<Longrightarrow> map (\<lambda>e. getitem e ''priority'') items = map Inr (map priority ts)"
  by (induction items arbitrary: i ts) (auto simp: andthen_eq_Inr build_task_Inr)

lemma assemble_Inr:
  "assemble w data = Inr r \<longleftrightarrow>
     (\<exists>items ts total rs. task_entries data = Inr items \<and> build_tasks 0 items = Inr ts
        \<and> py_sum w (map estimated_hours ts) = Inr total \<and> getitem data ''reasoning'' = Inr rs
        \<and> r = \<lparr>reasoning = rs, tasks = ts, total_estimated_hours = total\<rparr>)"
  by (auto simp: assemble_def andthen_eq_Inr)

lemma parse_ai_response_Inr:
  "parse_ai_response w content goal = Inr r \<longleftrightarrow>
     (\<exists>data. json_loads w (clean content) = Inr data \<and> assemble w data = Inr r)"
  by (auto simp: parse_ai_response_def split: sum.splits)

lemma accepted_build_tasks:
  assumes "parse_ai_response w content goal = Inr r"
    and "json_loads w (clean content) = Inr data" and "task_entries data = Inr items"
  shows "build_tasks 0 items = Inr (tasks r)"
proof -
  from assms(1,2) have "assemble w data = Inr r"
    by (simp add: parse_ai_response_def)
  then obtain items' ts where "task_entries data = Inr items'" "build_tasks 0 items' = Inr ts"
    "tasks r = ts"
    unfolding assemble_Inr by auto
  with assms(3) show ?thesis by simp
qed



subsection \<open>The examples, decoded\<close>

lemma example_accepted:
  "parse_ai_response (example_env offline) example_text ''Learn Spanish'' = Inr example_result"
  by code_simp

lemma example_text_decoded:
  "json_loads (example_env offline) (clean example_text)
     = Inr (PDict [(''reasoning'', PStr ''r''), (''tasks'', PList [example_entry]),
          (''total_estimated_hours'', PInt 99)])"
  by code_simp


lemma no_priority_decoded:
  "json_loads (example_env offline) (clean no_priority_text)
     = Inr (PDict [(''reasoning'', PStr ''r''),
          (''tasks'', PList [PDict [(''title'', PStr ''t''), (''description'', PStr ''d''),
             (''estimated_hours'', PInt 2)]])])"
  by code_simp

subsection \<open>The number of tasks\<close>

text \<open>
  C3. Claimed: a result that is returned always holds at least one task, the
  interpreter's as well as the fallback's. The interpreter reads the entries with
  \<^verbatim>\<open>data.get("tasks", [])\<close>: a document without the key, or with an empty list under
  it, is accepted with no task at all.
\<close>

theorem accepted_without_tasks:
  \<open>map_sum id tasks
      (parse_ai_response (example_env offline) ''{"reasoning": "r"}'' ''Learn Spanish'') = Inr []
   \<and> map_sum id tasks
      (parse_ai_response (example_env offline) ''{"reasoning": "r", "tasks": []}'' ''Learn Spanish'')
      = Inr []\<close>
  by code_simp

text \<open>
  C3, as the code has it: an accepted document yields one task for each entry that the
  loop over \<^verbatim>\<open>data.get("tasks", [])\<close> visits, which can be none; the fallback yields
  exactly three tasks.
\<close>

theorem accepted_tasks_count:
  "(parse_ai_response w content goal = Inr r \<longrightarrow>
      (\<exists>data items. json_loads w (clean content) = Inr data \<and> task_entries data = Inr items
         \<and> length (tasks r) = length items))
   \<and> (create_smart_tasks goal timeframe = Inr r' \<longrightarrow> length (tasks r') = 3)"
proof (intro conjI impI)
  assume "parse_ai_response w content goal = Inr r"
  then obtain data items ts where "json_loads w (clean content) = Inr data"
    and "task_entries data = Inr items" and "build_tasks 0 items = Inr ts" and "tasks r = ts"
    by (auto simp: parse_ai_response_Inr assemble_Inr)
  then show "\<exists>data items. json_loads w (clean content) = Inr data \<and> task_entries data = Inr items
         \<and> length (tasks r) = length items"
    using build_tasks_length by blast
next
  assume "create_smart_tasks goal timeframe = Inr r'"
  from create_smart_tasks_shape [OF this] have "length (map task_id (tasks r')) = 3"
    by auto
  then show "length (tasks r') = 3" by simp
qed

theorem accepted_tasks_count_witness:
  \<open>parse_ai_response (example_env offline) example_text ''Learn Spanish'' = Inr example_result
   \<and> (\<exists>data items. json_loads (example_env offline) (clean example_text) = Inr data
         \<and> task_entries data = Inr items \<and> length (tasks example_result) = length items)
   \<and> length (tasks example_result) = 1
   \<and> (\<exists>r'. create_smart_tasks ''Learn Spanish'' None = Inr r' \<and> length (tasks r') = 3)\<close>
proof -
  have a: "parse_ai_response (example_env offline) example_text ''Learn Spanish'' = Inr example_result"
    by code_simp
  obtain r' where b: "create_smart_tasks ''Learn Spanish'' None = Inr r'"
    by (simp add: create_smart_tasks_def)
  have c: "length (tasks example_result) = 1"
    by (simp add: example_result_def)
  from accepted_tasks_count [where w = "example_env offline" and content = example_text
      and goal = "''Learn Spanish''" and r = example_result and timeframe = None and r' = r'] a b c
  show ?thesis by blast
qed

subsection \<open>The priority of a task\<close>

text \<open>
  C5. Claimed: the priority of every task of an interpreted result is one of
  \<^verbatim>\<open>high\<close>, \<^verbatim>\<open>medium\<close>, \<^verbatim>\<open>low\<close>, and an entry without a priority gets \<^verbatim>\<open>medium\<close>. The
  interpreter copies \<^verbatim>\<open>task_data["priority"]\<close> and checks nothing: the priority
  \<^verbatim>\<open>urgent\<close> of \<open>example_text\<close> is kept, and an entry without the key ends the
  interpretation with a \<open>KeyError\<close>.
\<close>

theorem priority_not_checked:
  "map_sum id (\<lambda>r. map priority (tasks r))
      (parse_ai_response (example_env offline) example_text ''Learn Spanish'')
     = Inr [PStr ''urgent'']
   \<and> parse_ai_response (example_env offline) no_priority_text ''Learn Spanish''
     = Inl (KeyError ''priority'')"
  by code_simp

text \<open>
  C5, as the code has it: the priorities of the tasks of an accepted document are the
  values that the entries of the document hold under the key \<^verbatim>\<open>priority\<close>, in order and
  unchanged, whatever they are; and a document with an entry that has no such value is
  not accepted.
\<close>

theorem priority_copied:
  assumes "json_loads w (clean content) = Inr data" and "task_entries data = Inr items"
  shows "(parse_ai_response w content goal = Inr r \<longrightarrow>
            map (\<lambda>e. getitem e ''priority'') items = map Inr (map priority (tasks r)))
       \<and> ((\<exists>e \<in> set items. isl (getitem e ''priority''))
            \<longrightarrow> isl (parse_ai_response w content goal))"
proof (intro conjI impI)
  assume "parse_ai_response w content goal = Inr r"
  from accepted_build_tasks [OF this assms]
  show "map (\<lambda>e. getitem e ''priority'') items = map Inr (map priority (tasks r))"
    by (rule build_tasks_priorities)
next
  assume "\<exists>e \<in> set items. isl (getitem e ''priority'')"
  then obtain e where e: "e \<in> set items" "isl (getitem e ''priority'')" by blast
  then have "isl (build_task 0 e)" by (simp add: build_task_needs)
  with e(1) have fails: "isl (build_tasks 0 items)" by (rule build_tasks_fails)
  show "isl (parse_ai_response w content goal)"
  proof (cases "parse_ai_response w content goal")
    case (Inl x)
    then show ?thesis by simp
  next
    case (Inr r')
    from accepted_build_tasks [OF this assms] fails show ?thesis by simp
  qed
qed

theorem priority_copied_witness:
  "parse_ai_response (example_env offline) example_text ''Learn Spanish'' = Inr example_result
   \<and> map priority (tasks example_result) = [PStr ''urgent'']
   \<and> isl (parse_ai_response (example_env offline) no_priority_text ''Learn Spanish'')"
proof -
  have entries: "task_entries (PDict [(''reasoning'', PStr ''r''), (''tasks'', PList [example_entry]),
      (''total_estimated_hours'', PInt 99)]) = Inr [example_entry]"
    by (simp add: task_entries_def)
  have "map (\<lambda>e. getitem e ''priority'') [example_entry]
      = map Inr (map priority (tasks example_result))"
    using priority_copied [OF example_text_decoded entries, of "''Learn Spanish''" example_result]
      example_accepted
    by blast
  then have copied: "map priority (tasks example_result) = [PStr ''urgent'']"
    by (auto simp: example_entry_def)
  let ?e = "PDict [(''title'', PStr ''t''), (''description'', PStr ''d''),
             (''estimated_hours'', PInt 2)]"
  have entries': "task_entries (PDict [(''reasoning'', PStr ''r''), (''tasks'', PList [?e])]) = Inr [?e]"
    by (simp add: task_entries_def)
  have missing: "\<exists>e \<in> set [?e]. isl (getitem e ''priority'')"
    by simp
  have rejected: "isl (parse_ai_response (example_env offline) no_priority_text ''Learn Spanish'')"
    using priority_copied [OF no_priority_decoded entries', of "''Learn Spanish''"] missing
    by blast
  from example_accepted copied rejected show ?thesis by blast
qed

subsection \<open>The total\<close>



subsection \<open>What the interpreter rejects\<close>

text \<open>
  C7. The interpreter fails, and returns no result, whenever the decoder fails on the
  cleaned text, or the decoded document has no \<^verbatim>\<open>reasoning\<close>, or one of its task entries
  has no \<^verbatim>\<open>title\<close>, \<^verbatim>\<open>description\<close>, \<^verbatim>\<open>estimated_hours\<close> or \<^verbatim>\<open>priority\<close>. A value \<open>v\<close>
  has no field \<open>k\<close> when \<open>getitem v k\<close> fails: \<open>v\<close> is a dictionary without the key, or no
  dictionary. The parse error of the specification is the exception that leaves the
  interpreter, whatever its class: the prober catches them all alike. For text that is
  no JSON document it is the exception with the message of line 175.
\<close>

theorem parse_ai_response_fails:
  "(isl (json_loads w (clean content)) \<longrightarrow> isl (parse_ai_response w content goal))
   \<and> (json_loads w (clean content) = Inl JSONDecodeError \<longrightarrow>
        parse_ai_response w content goal = Inl (Exception ''Failed to parse AI response as JSON''))
   \<and> (json_loads w (clean content) = Inr data \<and> isl (getitem data ''reasoning'')
        \<longrightarrow> isl (parse_ai_response w content goal))
   \<and> (json_loads w (clean content) = Inr data \<and> task_entries data = Inr items
        \<and> e \<in> set items
        \<and> k \<in> {''title'', ''description'', ''estimated_hours'', ''priority''}
        \<and> isl (getitem e k)
        \<longrightarrow> isl (parse_ai_response w content goal))"
proof (intro conjI impI)
  assume "isl (json_loads w (clean content))"
  then show "isl (parse_ai_response w content goal)"
    by (auto simp: parse_ai_response_def split: sum.splits)
next
  assume "json_loads w (clean content) = Inl JSONDecodeError"
  then show "parse_ai_response w content goal
      = Inl (Exception ''Failed to parse AI response as JSON'')"
    by (simp add: parse_ai_response_def)
next
  assume h: "json_loads w (clean content) = Inr data \<and> isl (getitem data ''reasoning'')"
  show "isl (parse_ai_response w content goal)"
  proof (cases "parse_ai_response w content goal")
    case (Inl x)
    then show ?thesis by simp
  next
    case (Inr r)
    with h have "assemble w data = Inr r" by (simp add: parse_ai_response_def)
    then have "\<not> isl (getitem data ''reasoning'')" by (auto simp: assemble_Inr)
    with h show ?thesis by simp
  qed
next
  assume h: "json_loads w (clean content) = Inr data \<and> task_entries data = Inr items
      \<and> e \<in> set items
      \<and> k \<in> {''title'', ''description'', ''estimated_hours'', ''priority''}
      \<and> isl (getitem e k)"
  have "isl (build_task 0 e)"
    by (rule build_task_needs [where k = k]) (use h in auto)
  with h have fails: "isl (build_tasks 0 items)" using build_tasks_fails by blast
  show "isl (parse_ai_response w content goal)"
  proof (cases "parse_ai_response w content goal")
    case (Inl x)
    then show ?thesis by simp
  next
    case (Inr r)
    with h have "build_tasks 0 items = Inr (tasks r)" using accepted_build_tasks by blast
    with fails show ?thesis by simp
  qed
qed

theorem parse_ai_response_fails_witness:
  \<open>parse_ai_response (example_env offline) ''Sure! Here is the plan'' ''Learn Spanish''
     = Inl (Exception ''Failed to parse AI response as JSON'')
   \<and> isl (parse_ai_response (example_env offline) ''{"tasks": []}'' ''Learn Spanish'')
   \<and> isl (parse_ai_response (example_env offline) no_priority_text ''Learn Spanish'')\<close>
proof -
  have a: "json_loads (example_env offline) (clean ''Sure! Here is the plan'') = Inl JSONDecodeError"
    by code_simp
  have b: \<open>json_loads (example_env offline) (clean ''{"tasks": []}'')
      = Inr (PDict [(''tasks'', PList [])])\<close>
    by code_simp
  have b': "isl (getitem (PDict [(''tasks'', PList [])]) ''reasoning'')"
    by simp
  let ?e = "PDict [(''title'', PStr ''t''), (''description'', PStr ''d''),
             (''estimated_hours'', PInt 2)]"
  let ?d = "PDict [(''reasoning'', PStr ''r''), (''tasks'', PList [?e])]"
  have c: "task_entries ?d = Inr [?e]"
    by (simp add: task_entries_def)
  have c': "?e \<in> set [?e]"
    "''priority'' \<in> {''title'', ''description'', ''estimated_hours'', ''priority''}"
    "isl (getitem ?e ''priority'')"
    by simp_all
  have 1: "parse_ai_response (example_env offline) ''Sure! Here is the plan'' ''Learn Spanish''
     = Inl (Exception ''Failed to parse AI response as JSON'')"
    using parse_ai_response_fails [where w = "example_env offline"
        and content = "''Sure! Here is the plan''" and goal = "''Learn Spanish''"] a
    by blast
  have 2: \<open>isl (parse_ai_response (example_env offline) ''{"tasks": []}'' ''Learn Spanish'')\<close>
    using parse_ai_response_fails [where w = "example_env offline"
        and content = \<open>''{"tasks": []}''\<close> and goal = "''Learn Spanish''"
        and data = "PDict [(''tasks'', PList [])]"] b b'
    by blast
  have 3: "isl (parse_ai_response (example_env offline) no_priority_text ''Learn Spanish'')"
    using parse_ai_response_fails [where w = "example_env offline" and content = no_priority_text
        and goal = "''Learn Spanish''" and data = ?d and items = "[?e]" and e = ?e
        and k = "''priority''"] no_priority_decoded c c'
    by blast
  from 1 2 3 show ?thesis by blast
qed

subsection \<open>Fenced documents\<close>


















end
